theory Spec2Isabelle
  imports Main "HOL-Library.Multiset"
begin

section \<open>The message schema of pkg/api/message.go\<close>

text \<open>
  Go strings are modelled as \<^typ>\<open>string\<close>, slices as lists (the nil slice and the
  empty slice are both \<^term>\<open>[]\<close>: the code only reads \<open>len\<close> and ranges over them),
  a pointer as an \<^typ>\<open>'a option\<close> (\<^term>\<open>None\<close> is the nil pointer), and a nil
  pointer dereference as the error value \<open>NilDereference\<close>.
\<close>

subsection \<open>String-typed constants\<close>

type_synonym ButtonStyle = string
type_synonym SelectType = string
type_synonym DividerStyle = string
type_synonym MessageType = string
type_synonym DispatchedInputAction = string
type_synonym ButtonDescriptionStyle = string

definition ButtonStyleDefault :: ButtonStyle where
  "ButtonStyleDefault = ''''"

definition ButtonStylePrimary :: ButtonStyle where
  "ButtonStylePrimary = ''primary''"

definition ButtonStyleDanger :: ButtonStyle where
  "ButtonStyleDanger = ''danger''"

definition ButtonDescriptionStyleBold :: ButtonDescriptionStyle where
  "ButtonDescriptionStyleBold = ''bold''"

definition ButtonDescriptionStyleText :: ButtonDescriptionStyle where
  "ButtonDescriptionStyleText = ''text''"

definition ButtonDescriptionStyleCode :: ButtonDescriptionStyle where
  "ButtonDescriptionStyleCode = ''code''"

subsection \<open>Value types\<close>

record Body =
  CodeBlock :: string
  Plaintext :: string

record Base =
  Header :: string
  Description :: string
  Body :: Body

record SectionStyle =
  Divider :: DividerStyle

record OptionItem =
  Name :: string
  Value :: string

record OptionGroup =
  Name :: string
  Options :: "OptionItem list"

record Select =
  Type :: SelectType
  Name :: string
  Command :: string
  OptionGroups :: "OptionGroup list"
  InitialOption :: "OptionItem option"

record Selects =
  ID :: string
  Items :: "Select list"

record MultiSelect =
  Name :: string
  Description :: Body
  Command :: string
  Options :: "OptionItem list"
  InitialOptions :: "OptionItem list"

record LabelInput =
  Command :: string
  Text :: string
  Placeholder :: string
  DispatchedAction :: DispatchedInputAction

record TextField =
  Key :: string
  Value :: string

record BulletList =
  Title :: string
  Items :: "string list"

record ContextItem =
  Text :: string

record Button =
  Description :: string
  DescriptionStyle :: ButtonDescriptionStyle
  Name :: string
  Command :: string
  URL :: string
  Style :: ButtonStyle

type_synonym Buttons = "Button list"
type_synonym LabelInputs = "LabelInput list"
type_synonym TextFields = "TextField list"
type_synonym BulletLists = "BulletList list"
type_synonym ContextItems = "ContextItem list"

record Section =
  Style :: SectionStyle
  Base :: Base
  Buttons :: Buttons
  MultiSelect :: MultiSelect
  Selects :: Selects
  PlaintextInputs :: LabelInputs
  TextFields :: TextFields
  BulletLists :: BulletLists
  Context :: ContextItems

text \<open>
  \<open>time.Time\<close> belongs to Go's standard library. It is modelled as the instant it
  denotes: whole seconds since January 1, year 1, 00:00:00 UTC and the nanoseconds
  within that second. \<open>Time.IsZero\<close> reports whether the instant is that origin;
  it reads neither the location nor the monotonic clock reading, which are left out.
\<close>

record Time =
  sec :: int
  nsec :: int

definition Time_IsZero :: "Time \<Rightarrow> bool" where
  "Time_IsZero t = (sec t = 0 \<and> nsec t = 0)"

record Message =
  Type :: MessageType
  BaseBody :: Body
  Timestamp :: Time
  Sections :: "Section list"
  PlaintextInputs :: LabelInputs
  OnlyVisibleForYou :: bool
  ReplaceOriginal :: bool
  UserHandle :: string
  ParentActivityID :: string

datatype error = NilDereference

subsection \<open>Predicates on messages\<close>

text \<open>\<open>var emptyBase Body\<close>: the zero value of \<open>Body\<close>.\<close>

definition emptyBase :: Body where
  "emptyBase = \<lparr>CodeBlock = '''', Plaintext = ''''\<rparr>"

text \<open>
  The three \<open>Has...\<close> methods read a field of \<open>msg\<close> with no nil check, so a nil
  receiver panics.
\<close>

fun Message_HasBaseBody :: "Message option \<Rightarrow> error + bool" where
  "Message_HasBaseBody None = Inl NilDereference"
| "Message_HasBaseBody (Some msg) = Inr (BaseBody msg \<noteq> emptyBase)"

fun Message_HasSections :: "Message option \<Rightarrow> error + bool" where
  "Message_HasSections None = Inl NilDereference"
| "Message_HasSections (Some msg) = Inr (length (Sections msg) \<noteq> 0)"

fun Message_HasInputs :: "Message option \<Rightarrow> error + bool" where
  "Message_HasInputs None = Inl NilDereference"
| "Message_HasInputs (Some msg) = Inr (length (Message.PlaintextInputs msg) \<noteq> 0)"

definition Message_IsEmpty :: "Message option \<Rightarrow> error + bool" where
  "Message_IsEmpty msg =
     (case Message_HasBaseBody msg of
        Inl e \<Rightarrow> Inl e
      | Inr True \<Rightarrow> Inr False
      | Inr False \<Rightarrow>
          (case Message_HasInputs msg of
             Inl e \<Rightarrow> Inl e
           | Inr True \<Rightarrow> Inr False
           | Inr False \<Rightarrow>
               (case Message_HasSections msg of
                  Inl e \<Rightarrow> Inl e
                | Inr True \<Rightarrow> Inr False
                | Inr False \<Rightarrow>
                    (case msg of
                       None \<Rightarrow> Inl NilDereference
                     | Some m \<Rightarrow>
                         if \<not> Time_IsZero (Timestamp m) then Inr False else Inr True))))"

subsection \<open>Predicates on section elements\<close>

text \<open>The range loop of \<open>AreItemsDefined\<close>, returning at the first list with items.\<close>

fun BulletLists_AreItemsDefined :: "BulletLists \<Rightarrow> bool" where
  "BulletLists_AreItemsDefined [] = False"
| "BulletLists_AreItemsDefined (list # rest) =
     (if length (BulletList.Items list) > 0 then True else BulletLists_AreItemsDefined rest)"

fun TextField_IsEmpty :: "TextField option \<Rightarrow> error + bool" where
  "TextField_IsEmpty None = Inl NilDereference"
| "TextField_IsEmpty (Some t) = Inr (TextField.Value t = '''' \<and> Key t = '''')"

definition ContextItems_IsDefined :: "ContextItems \<Rightarrow> bool" where
  "ContextItems_IsDefined c = (length c > 0)"

fun Selects_AreOptionsDefined :: "Selects option \<Rightarrow> bool" where
  "Selects_AreOptionsDefined None = False"
| "Selects_AreOptionsDefined (Some s) = (length (Selects.Items s) > 0)"

fun MultiSelect_AreOptionsDefined :: "MultiSelect option \<Rightarrow> bool" where
  "MultiSelect_AreOptionsDefined None = False"
| "MultiSelect_AreOptionsDefined (Some m) =
     (if length (MultiSelect.Options m) = 0 then False else True)"

subsection \<open>Splitting buttons by description\<close>

text \<open>
  Both getters run \<open>for _, item := range *s\<close> over the buttons with the accumulator
  \<open>out\<close>, which starts as the nil slice and grows by \<open>append(out, item)\<close>.
\<close>

fun withDescriptionLoop :: "Buttons \<Rightarrow> Buttons \<Rightarrow> Buttons" where
  "withDescriptionLoop out [] = out"
| "withDescriptionLoop out (item # rest) =
     (if Button.Description item = '''' then withDescriptionLoop out rest
      else withDescriptionLoop (out @ [item]) rest)"

fun Buttons_GetButtonsWithDescription :: "Buttons option \<Rightarrow> Buttons" where
  "Buttons_GetButtonsWithDescription None = []"
| "Buttons_GetButtonsWithDescription (Some s) = withDescriptionLoop [] s"

fun withoutDescriptionLoop :: "Buttons \<Rightarrow> Buttons \<Rightarrow> Buttons" where
  "withoutDescriptionLoop out [] = out"
| "withoutDescriptionLoop out (item # rest) =
     (if Button.Description item \<noteq> '''' then withoutDescriptionLoop out rest
      else withoutDescriptionLoop (out @ [item]) rest)"

fun Buttons_GetButtonsWithoutDescription :: "Buttons option \<Rightarrow> Buttons" where
  "Buttons_GetButtonsWithoutDescription None = []"
| "Buttons_GetButtonsWithoutDescription (Some s) = withoutDescriptionLoop [] s"

section \<open>The button builder\<close>

text \<open>
  \<open>fmt.Sprintf("%s %s", a, b)\<close>: the two strings with one space between them.
\<close>

definition Sprintf_s_s :: "string \<Rightarrow> string \<Rightarrow> string" where
  "Sprintf_s_s a b = a @ '' '' @ b"

text \<open>
  \<open>ButtonBuilder\<close> is an empty struct and no method reads its receiver, so the
  receiver is dropped. \<open>MessageBotNamePlaceholder\<close> is declared in another file of
  the package; every function that reads it takes it as its first argument \<open>ph\<close>.
  The variadic \<open>style ...ButtonStyle\<close> is the list of the styles passed. Every public
  builder but the two \<open>ForURLWith...Desc\<close> opens with the same three lines,
  \<open>bt := ButtonStyleDefault; if len(style) > 0 { bt = style[0] }\<close>, written once here as
  \<open>firstStyle\<close>.
\<close>

definition firstStyle :: "ButtonStyle list \<Rightarrow> ButtonStyle" where
  "firstStyle style = (if length style > 0 then style ! 0 else ButtonStyleDefault)"

definition commandWithDesc ::
  "string \<Rightarrow> string \<Rightarrow> string \<Rightarrow> string \<Rightarrow> ButtonStyle \<Rightarrow> ButtonDescriptionStyle \<Rightarrow> Button" where
  "commandWithDesc ph name cmd desc style descStyle =
     \<lparr>Button.Description = desc,
      DescriptionStyle = descStyle,
      Button.Name = name,
      Button.Command = Sprintf_s_s ph cmd,
      URL = '''',
      Button.Style = style\<rparr>"

definition commandWithCmdDesc ::
  "string \<Rightarrow> string \<Rightarrow> string \<Rightarrow> string \<Rightarrow> ButtonStyle \<Rightarrow> Button" where
  "commandWithCmdDesc ph name cmd desc style =
     commandWithDesc ph name cmd (Sprintf_s_s ph desc) style ButtonDescriptionStyleCode"

definition ForCommandWithDescCmd ::
  "string \<Rightarrow> string \<Rightarrow> string \<Rightarrow> ButtonStyle list \<Rightarrow> Button" where
  "ForCommandWithDescCmd ph name cmd style =
     commandWithCmdDesc ph name cmd cmd (firstStyle style)"

definition ForCommandWithBoldDesc ::
  "string \<Rightarrow> string \<Rightarrow> string \<Rightarrow> string \<Rightarrow> ButtonStyle list \<Rightarrow> Button" where
  "ForCommandWithBoldDesc ph name desc cmd style =
     commandWithDesc ph name cmd desc (firstStyle style) ButtonDescriptionStyleBold"

definition DescriptionURL ::
  "string \<Rightarrow> string \<Rightarrow> string \<Rightarrow> string \<Rightarrow> ButtonStyle list \<Rightarrow> Button" where
  "DescriptionURL ph name cmd url style =
     \<lparr>Button.Description = Sprintf_s_s ph cmd,
      DescriptionStyle = '''',
      Button.Name = name,
      Button.Command = '''',
      URL = url,
      Button.Style = firstStyle style\<rparr>"

definition ForCommandWithoutDesc ::
  "string \<Rightarrow> string \<Rightarrow> string \<Rightarrow> ButtonStyle list \<Rightarrow> Button" where
  "ForCommandWithoutDesc ph name cmd style =
     \<lparr>Button.Description = '''',
      DescriptionStyle = '''',
      Button.Name = name,
      Button.Command = Sprintf_s_s ph cmd,
      URL = '''',
      Button.Style = firstStyle style\<rparr>"

definition ForCommand ::
  "string \<Rightarrow> string \<Rightarrow> string \<Rightarrow> string \<Rightarrow> ButtonStyle list \<Rightarrow> Button" where
  "ForCommand ph name cmd desc style =
     commandWithCmdDesc ph name cmd desc (firstStyle style)"

definition ForURL :: "string \<Rightarrow> string \<Rightarrow> ButtonStyle list \<Rightarrow> Button" where
  "ForURL name url style =
     \<lparr>Button.Description = '''',
      DescriptionStyle = '''',
      Button.Name = name,
      Button.Command = '''',
      URL = url,
      Button.Style = firstStyle style\<rparr>"

definition ForURLWithBoldDesc ::
  "string \<Rightarrow> string \<Rightarrow> string \<Rightarrow> ButtonStyle list \<Rightarrow> Button" where
  "ForURLWithBoldDesc name desc url style =
     (ForURL name url style)
       \<lparr>Button.Description := desc, DescriptionStyle := ButtonDescriptionStyleBold\<rparr>"

definition ForURLWithTextDesc ::
  "string \<Rightarrow> string \<Rightarrow> string \<Rightarrow> ButtonStyle list \<Rightarrow> Button" where
  "ForURLWithTextDesc name desc url style =
     (ForURL name url style)
       \<lparr>Button.Description := desc, DescriptionStyle := ButtonDescriptionStyleText\<rparr>"

section \<open>What the specification asks of \<open>Selects.AreOptionsDefined\<close>\<close>

text \<open>
  The specification's reading of ``the receiver offers at least one selectable option'':
  some contained \<open>Select\<close> has an option group with at least one option. This follows
  the specification's words, not the code, and is only compared with the code below.
\<close>

definition Selects_offersOption :: "Selects \<Rightarrow> bool" where
  "Selects_offersOption s =
     (\<exists>sel \<in> set (Selects.Items s). \<exists>g \<in> set (OptionGroups sel). OptionGroup.Options g \<noteq> [])"

section \<open>Properties\<close>

subsection \<open>Shared facts\<close>

lemma withDescriptionLoop_filter:
  "withDescriptionLoop out s = out @ filter (\<lambda>b. Button.Description b \<noteq> '''') s"
  by (induction s arbitrary: out) simp_all

lemma withoutDescriptionLoop_filter:
  "withoutDescriptionLoop out s = out @ filter (\<lambda>b. Button.Description b = '''') s"
  by (induction s arbitrary: out) simp_all

lemma firstStyle_Nil: "firstStyle [] = ''''"
  by (simp add: firstStyle_def ButtonStyleDefault_def)

lemma firstStyle_Cons: "firstStyle (bt # rest) = bt"
  by (simp add: firstStyle_def)

lemma Message_IsEmpty_Some:
  "Message_IsEmpty (Some msg) =
     Inr (BaseBody msg = emptyBase \<and> Message.PlaintextInputs msg = [] \<and> Sections msg = []
          \<and> Time_IsZero (Timestamp msg))"
  by (cases "BaseBody msg = emptyBase"; cases "Message.PlaintextInputs msg = []";
      cases "Sections msg = []") (simp_all add: Message_IsEmpty_def)

subsection \<open>Emptiness of a message\<close>

text \<open>
  C1. For every (non-nil) message, \<open>IsEmpty()\<close> returns, and it returns true exactly when
  \<open>HasBaseBody()\<close>, \<open>HasInputs()\<close> and \<open>HasSections()\<close> all return false and
  \<open>Timestamp.IsZero()\<close> holds (the timestamp is the zero time instant); it returns false
  in every other case. \<open>HasBaseBody()\<close> is true iff \<open>BaseBody\<close> differs from the zero
  \<open>Body\<close>, \<open>HasSections()\<close> iff \<open>Sections\<close> is non-empty, and \<open>HasInputs()\<close> iff
  \<open>PlaintextInputs\<close> is non-empty.
\<close>

theorem Message_IsEmpty_iff:
  "(Message_IsEmpty (Some msg) = Inr True) =
     (Message_HasBaseBody (Some msg) = Inr False \<and> Message_HasInputs (Some msg) = Inr False
      \<and> Message_HasSections (Some msg) = Inr False \<and> Time_IsZero (Timestamp msg))
   \<and> (Message_IsEmpty (Some msg) = Inr False) =
     (\<not> (Message_HasBaseBody (Some msg) = Inr False \<and> Message_HasInputs (Some msg) = Inr False
      \<and> Message_HasSections (Some msg) = Inr False \<and> Time_IsZero (Timestamp msg)))
   \<and> Message_HasBaseBody (Some msg)
       = Inr (BaseBody msg \<noteq> \<lparr>CodeBlock = '''', Plaintext = ''''\<rparr>)
   \<and> Message_HasSections (Some msg) = Inr (Sections msg \<noteq> [])
   \<and> Message_HasInputs (Some msg) = Inr (Message.PlaintextInputs msg \<noteq> [])"
  by (simp add: Message_IsEmpty_Some emptyBase_def)

subsection \<open>Buttons with and without a description\<close>

text \<open>
  C2. For every button collection, \<open>GetButtonsWithDescription()\<close> returns exactly the
  buttons with a non-empty \<open>Description\<close> and \<open>GetButtonsWithoutDescription()\<close> exactly
  those with an empty one, each in the original relative order; the concatenation of the
  two results is a permutation of the collection, and no button is in both results.
\<close>

theorem Buttons_partition:
  "Buttons_GetButtonsWithDescription (Some s) = filter (\<lambda>b. Button.Description b \<noteq> '''') s
   \<and> Buttons_GetButtonsWithoutDescription (Some s) = filter (\<lambda>b. Button.Description b = '''') s
   \<and> mset (Buttons_GetButtonsWithDescription (Some s)
            @ Buttons_GetButtonsWithoutDescription (Some s)) = mset s
   \<and> set (Buttons_GetButtonsWithDescription (Some s))
       \<inter> set (Buttons_GetButtonsWithoutDescription (Some s)) = {}"
proof -
  have w: "Buttons_GetButtonsWithDescription (Some s)
             = filter (\<lambda>b. Button.Description b \<noteq> '''') s"
    by (simp add: withDescriptionLoop_filter)
  have wo: "Buttons_GetButtonsWithoutDescription (Some s)
              = filter (\<lambda>b. Button.Description b = '''') s"
    by (simp add: withoutDescriptionLoop_filter)
  have perm: "mset (filter (\<lambda>b. Button.Description b \<noteq> '''') s
                    @ filter (\<lambda>b. Button.Description b = '''') s) = mset s"
    by (induction s) simp_all
  have disj: "set (filter (\<lambda>b. Button.Description b \<noteq> '''') s)
                \<inter> set (filter (\<lambda>b. Button.Description b = '''') s) = {}"
    by auto
  show ?thesis
    unfolding w wo using perm disj by simp
qed

subsection \<open>Options of selects and multi-selects\<close>

text \<open>
  C3, as the code has it. For every non-nil \<open>MultiSelect\<close>, \<open>AreOptionsDefined()\<close> is
  true iff \<open>Options\<close> is non-empty. For every non-nil \<open>Selects\<close>, it is true iff \<open>Items\<close>
  is non-empty, that is, iff the receiver contains at least one \<open>Select\<close>; in particular
  it is true whenever some contained \<open>Select\<close> offers an option.
\<close>

theorem AreOptionsDefined_by_length:
  "MultiSelect_AreOptionsDefined (Some m) = (MultiSelect.Options m \<noteq> [])
   \<and> Selects_AreOptionsDefined (Some s) = (Selects.Items s \<noteq> [])
   \<and> (Selects_offersOption s \<longrightarrow> Selects_AreOptionsDefined (Some s))"
  by (auto simp: Selects_offersOption_def)

theorem AreOptionsDefined_by_length_witness:
  "Selects_offersOption
     \<lparr>ID = ''ns'', Selects.Items =
        [\<lparr>Select.Type = ''static'', Select.Name = ''namespace'', Select.Command = ''get'',
          OptionGroups = [\<lparr>OptionGroup.Name = ''all'', OptionGroup.Options =
             [\<lparr>OptionItem.Name = ''default'', OptionItem.Value = ''default''\<rparr>]\<rparr>],
          InitialOption = None\<rparr>]\<rparr>
   \<and> Selects_AreOptionsDefined (Some
     \<lparr>ID = ''ns'', Selects.Items =
        [\<lparr>Select.Type = ''static'', Select.Name = ''namespace'', Select.Command = ''get'',
          OptionGroups = [\<lparr>OptionGroup.Name = ''all'', OptionGroup.Options =
             [\<lparr>OptionItem.Name = ''default'', OptionItem.Value = ''default''\<rparr>]\<rparr>],
          InitialOption = None\<rparr>]\<rparr>)
   \<and> MultiSelect_AreOptionsDefined (Some
     \<lparr>MultiSelect.Name = ''kinds'', MultiSelect.Description = \<lparr>CodeBlock = '''', Plaintext = ''''\<rparr>,
      MultiSelect.Command = ''filter'',
      MultiSelect.Options = [\<lparr>OptionItem.Name = ''pods'', OptionItem.Value = ''pods''\<rparr>],
      InitialOptions = []\<rparr>)"
  using AreOptionsDefined_by_length [of
     "\<lparr>MultiSelect.Name = ''kinds'', MultiSelect.Description = \<lparr>CodeBlock = '''', Plaintext = ''''\<rparr>,
      MultiSelect.Command = ''filter'',
      MultiSelect.Options = [\<lparr>OptionItem.Name = ''pods'', OptionItem.Value = ''pods''\<rparr>],
      InitialOptions = []\<rparr>"
     "\<lparr>ID = ''ns'', Selects.Items =
        [\<lparr>Select.Type = ''static'', Select.Name = ''namespace'', Select.Command = ''get'',
          OptionGroups = [\<lparr>OptionGroup.Name = ''all'', OptionGroup.Options =
             [\<lparr>OptionItem.Name = ''default'', OptionItem.Value = ''default''\<rparr>]\<rparr>],
          InitialOption = None\<rparr>]\<rparr>"]
  by (simp add: Selects_offersOption_def)

text \<open>
  C3 as stated fails: a \<open>Selects\<close> holding one \<open>Select\<close> that has no option group
  offers no option, and \<open>AreOptionsDefined()\<close> is true for it.
\<close>

theorem Selects_AreOptionsDefined_counterexample:
  "Selects_AreOptionsDefined (Some
     \<lparr>ID = '''', Selects.Items =
        [\<lparr>Select.Type = ''static'', Select.Name = '''', Select.Command = '''',
          OptionGroups = [], InitialOption = None\<rparr>]\<rparr>)
   \<and> \<not> Selects_offersOption
     \<lparr>ID = '''', Selects.Items =
        [\<lparr>Select.Type = ''static'', Select.Name = '''', Select.Command = '''',
          OptionGroups = [], InitialOption = None\<rparr>]\<rparr>"
  by (simp add: Selects_offersOption_def)

subsection \<open>The placeholder prefix of command buttons\<close>

text \<open>
  C4. For each of \<open>ForCommandWithDescCmd\<close>, \<open>ForCommandWithBoldDesc\<close>,
  \<open>ForCommandWithoutDesc\<close> and \<open>ForCommand\<close>, and for all strings and styles, the
  \<open>Command\<close> of the returned button is the placeholder, one space and the given command.
  The prefix is there once: the result is neither the bare command nor the command
  prefixed twice.
\<close>

theorem Command_prefixed_once:
  "Button.Command (ForCommandWithDescCmd ph name cmd style) = ph @ '' '' @ cmd
   \<and> Button.Command (ForCommandWithBoldDesc ph name desc cmd style) = ph @ '' '' @ cmd
   \<and> Button.Command (ForCommandWithoutDesc ph name cmd style) = ph @ '' '' @ cmd
   \<and> Button.Command (ForCommand ph name cmd desc style) = ph @ '' '' @ cmd
   \<and> Button.Command (ForCommand ph name cmd desc style) \<noteq> cmd
   \<and> Button.Command (ForCommand ph name cmd desc style) \<noteq> ph @ '' '' @ ph @ '' '' @ cmd"
proof -
  have bare: "ph @ '' '' @ cmd \<noteq> cmd"
  proof
    assume "ph @ '' '' @ cmd = cmd"
    then have "length (ph @ '' '' @ cmd) = length cmd" by simp
    then show False by simp
  qed
  have twice: "ph @ '' '' @ cmd \<noteq> ph @ '' '' @ ph @ '' '' @ cmd"
    using bare by simp
  have c: "Button.Command (ForCommand ph name cmd desc style) = ph @ '' '' @ cmd"
    by (simp add: ForCommand_def commandWithCmdDesc_def commandWithDesc_def Sprintf_s_s_def)
  have a: "Button.Command (ForCommandWithDescCmd ph name cmd style) = ph @ '' '' @ cmd"
    by (simp add: ForCommandWithDescCmd_def commandWithCmdDesc_def commandWithDesc_def
        Sprintf_s_s_def)
  have b: "Button.Command (ForCommandWithBoldDesc ph name desc cmd style) = ph @ '' '' @ cmd"
    by (simp add: ForCommandWithBoldDesc_def commandWithDesc_def Sprintf_s_s_def)
  have d: "Button.Command (ForCommandWithoutDesc ph name cmd style) = ph @ '' '' @ cmd"
    by (simp add: ForCommandWithoutDesc_def Sprintf_s_s_def)
  show ?thesis
    unfolding a b c d using bare twice by simp
qed

subsection \<open>Single builder operations\<close>

text \<open>
  C5. \<open>ForCommandWithDescCmd\<close> with no style argument returns the button with the given
  name, with the placeholder, a space and the command as both \<open>Command\<close> and
  \<open>Description\<close>, with description style \<open>code\<close> and the default (empty) style; the URL
  is empty. With name \<open>Run\<close> and command \<open>run-now\<close> this is the button of the
  specification's example.
\<close>

theorem ForCommandWithDescCmd_no_style:
  "ForCommandWithDescCmd ph name cmd [] =
     \<lparr>Button.Description = ph @ '' '' @ cmd, DescriptionStyle = ''code'', Button.Name = name,
      Button.Command = ph @ '' '' @ cmd, URL = '''', Button.Style = ''''\<rparr>
   \<and> ForCommandWithDescCmd ph ''Run'' ''run-now'' [] =
     \<lparr>Button.Description = ph @ '' run-now'', DescriptionStyle = ''code'',
      Button.Name = ''Run'', Button.Command = ph @ '' run-now'', URL = '''',
      Button.Style = ''''\<rparr>"
  by (simp add: ForCommandWithDescCmd_def commandWithCmdDesc_def commandWithDesc_def
      Sprintf_s_s_def firstStyle_Nil ButtonDescriptionStyleCode_def)

text \<open>
  C6. \<open>ForURLWithBoldDesc\<close> with no style argument returns the button whose name, URL and
  description are the arguments unchanged, with description style \<open>bold\<close>, the default
  (empty) style and an empty command. With name \<open>Docs\<close>, description \<open>See docs\<close> and
  url \<open>https://x\<close> this is the button of the specification's example.
\<close>

theorem ForURLWithBoldDesc_no_style:
  "ForURLWithBoldDesc name desc url [] =
     \<lparr>Button.Description = desc, DescriptionStyle = ''bold'', Button.Name = name,
      Button.Command = '''', URL = url, Button.Style = ''''\<rparr>
   \<and> ForURLWithBoldDesc ''Docs'' ''See docs'' ''https://x'' [] =
     \<lparr>Button.Description = ''See docs'', DescriptionStyle = ''bold'', Button.Name = ''Docs'',
      Button.Command = '''', URL = ''https://x'', Button.Style = ''''\<rparr>"
  by (simp add: ForURLWithBoldDesc_def ForURL_def firstStyle_Nil
      ButtonDescriptionStyleBold_def)

text \<open>
  C9. For all strings and styles, the button returned by \<open>DescriptionURL\<close> has an empty
  \<open>Command\<close> and an empty \<open>DescriptionStyle\<close> (so not the style \<open>code\<close> that the command
  builders set); the command text is only inside its \<open>Description\<close>, which is the
  placeholder, a space and the command.
\<close>

theorem DescriptionURL_fields:
  "Button.Command (DescriptionURL ph name cmd url style) = ''''
   \<and> DescriptionStyle (DescriptionURL ph name cmd url style) = ''''
   \<and> DescriptionStyle (DescriptionURL ph name cmd url style) \<noteq> ButtonDescriptionStyleCode
   \<and> Button.Description (DescriptionURL ph name cmd url style) = ph @ '' '' @ cmd
   \<and> Button.Name (DescriptionURL ph name cmd url style) = name
   \<and> URL (DescriptionURL ph name cmd url style) = url"
  by (simp add: DescriptionURL_def Sprintf_s_s_def ButtonDescriptionStyleCode_def)

text \<open>
  C10. For all names, commands and style arguments, \<open>ForCommandWithDescCmd(name, cmd,
  style...)\<close> returns the same button as \<open>ForCommand(name, cmd, cmd, style...)\<close>.
\<close>

theorem ForCommandWithDescCmd_is_ForCommand:
  "ForCommandWithDescCmd ph name cmd style = ForCommand ph name cmd cmd style"
  by (simp add: ForCommandWithDescCmd_def ForCommand_def)

subsection \<open>Bullet lists\<close>

text \<open>
  C8. For every collection of bullet lists, \<open>AreItemsDefined()\<close> is true iff at least
  one contained list has a non-empty \<open>Items\<close>; it is false for the empty collection and
  for a collection whose lists all have no items.
\<close>

theorem BulletLists_AreItemsDefined_iff:
  "BulletLists_AreItemsDefined l = (\<exists>list \<in> set l. BulletList.Items list \<noteq> [])
   \<and> \<not> BulletLists_AreItemsDefined []
   \<and> ((\<forall>list \<in> set l. BulletList.Items list = []) \<longrightarrow> \<not> BulletLists_AreItemsDefined l)"
proof -
  have ex: "BulletLists_AreItemsDefined l = (\<exists>list \<in> set l. BulletList.Items list \<noteq> [])"
    by (induction l) simp_all
  show ?thesis
    unfolding ex by simp
qed

theorem BulletLists_AreItemsDefined_iff_witness:
  "BulletLists_AreItemsDefined
     [\<lparr>Title = ''none'', BulletList.Items = []\<rparr>, \<lparr>Title = ''pods'', BulletList.Items = [''a'', ''b'']\<rparr>]
   \<and> \<not> BulletLists_AreItemsDefined
     [\<lparr>Title = ''none'', BulletList.Items = []\<rparr>, \<lparr>Title = ''other'', BulletList.Items = []\<rparr>]"
  using BulletLists_AreItemsDefined_iff [of
      "[\<lparr>Title = ''none'', BulletList.Items = []\<rparr>, \<lparr>Title = ''pods'', BulletList.Items = [''a'', ''b'']\<rparr>]"]
    BulletLists_AreItemsDefined_iff [of
      "[\<lparr>Title = ''none'', BulletList.Items = []\<rparr>, \<lparr>Title = ''other'', BulletList.Items = []\<rparr>]"]
  by simp

subsection \<open>Nil receivers\<close>

text \<open>
  C7, as the code has it. The four methods with a nil guard handle a nil receiver:
  \<open>AreOptionsDefined()\<close> on a nil \<open>Selects\<close> and on a nil \<open>MultiSelect\<close> is false, and
  \<open>GetButtonsWithDescription()\<close> and \<open>GetButtonsWithoutDescription()\<close> on a nil \<open>Buttons\<close>
  return the nil collection. The predicates with a slice receiver
  (\<open>BulletLists.AreItemsDefined\<close>, \<open>ContextItems.IsDefined\<close>) are false on the nil slice.
  The methods of \<open>Message\<close> (\<open>IsEmpty\<close>, \<open>HasBaseBody\<close>, \<open>HasSections\<close>, \<open>HasInputs\<close>)
  and \<open>TextField.IsEmpty\<close> have no nil guard: each returns a result on every non-nil
  receiver and panics on the nil receiver, so it fails exactly when its receiver is nil.
\<close>

theorem nil_receivers_guarded:
  "\<not> Selects_AreOptionsDefined None
   \<and> \<not> MultiSelect_AreOptionsDefined None
   \<and> Buttons_GetButtonsWithDescription None = []
   \<and> Buttons_GetButtonsWithoutDescription None = []
   \<and> \<not> BulletLists_AreItemsDefined []
   \<and> \<not> ContextItems_IsDefined []
   \<and> \<not> isl (Message_IsEmpty (Some msg))
   \<and> \<not> isl (Message_HasBaseBody (Some msg))
   \<and> \<not> isl (Message_HasSections (Some msg))
   \<and> \<not> isl (Message_HasInputs (Some msg))
   \<and> \<not> isl (TextField_IsEmpty (Some t))
   \<and> Message_IsEmpty None = Inl NilDereference
   \<and> Message_HasBaseBody None = Inl NilDereference
   \<and> Message_HasSections None = Inl NilDereference
   \<and> Message_HasInputs None = Inl NilDereference
   \<and> TextField_IsEmpty None = Inl NilDereference
   \<and> isl (Message_IsEmpty r) = (r = None)
   \<and> isl (Message_HasBaseBody r) = (r = None)
   \<and> isl (Message_HasSections r) = (r = None)
   \<and> isl (Message_HasInputs r) = (r = None)
   \<and> isl (TextField_IsEmpty f) = (f = None)"
proof -
  have nil_IsEmpty: "Message_IsEmpty None = Inl NilDereference"
    by (simp add: Message_IsEmpty_def)
  have fails_IsEmpty: "isl (Message_IsEmpty r) = (r = None)"
    by (cases r) (simp_all add: nil_IsEmpty Message_IsEmpty_Some)
  have fails_HasBaseBody: "isl (Message_HasBaseBody r) = (r = None)"
    by (cases r) simp_all
  have fails_HasSections: "isl (Message_HasSections r) = (r = None)"
    by (cases r) simp_all
  have fails_HasInputs: "isl (Message_HasInputs r) = (r = None)"
    by (cases r) simp_all
  have fails_TextField: "isl (TextField_IsEmpty f) = (f = None)"
    by (cases f) simp_all
  show ?thesis
    unfolding fails_IsEmpty fails_HasBaseBody fails_HasSections fails_HasInputs
      fails_TextField nil_IsEmpty
    by (simp add: ContextItems_IsDefined_def Message_IsEmpty_Some)
qed

text \<open>
  C7 as stated fails for the methods without a nil guard: \<open>IsEmpty()\<close> on a nil
  \<open>*Message\<close> calls \<open>HasBaseBody()\<close>, which reads \<open>msg.BaseBody\<close> and panics; so do
  \<open>HasSections()\<close> and \<open>HasInputs()\<close> on a nil \<open>*Message\<close> and \<open>IsEmpty()\<close> on a nil
  \<open>*TextField\<close>.
\<close>

theorem Message_IsEmpty_nil_counterexample:
  "Message_IsEmpty None = Inl NilDereference
   \<and> Message_HasBaseBody None = Inl NilDereference
   \<and> Message_HasSections None = Inl NilDereference
   \<and> Message_HasInputs None = Inl NilDereference
   \<and> TextField_IsEmpty None = Inl NilDereference"
  by (simp add: Message_IsEmpty_def)

end
